theory Spec2Isabelle
  imports Main "HOL-Library.Sublist"
begin

section \<open>Archey: data tables and global variables\<close>

text \<open>
  Python strings are modelled as \<open>string\<close>; one \<open>char\<close> stands for one character of
  the Python string, so \<open>length\<close> is Python's \<open>len\<close>.
\<close>

definition ESC :: char where
  "ESC = CHR 0x1B"

text \<open>The colour escape sequences used by the modelled code (lines 59 to 67).\<close>

definition clear :: string where "clear = ESC # ''[0m''"
definition redB :: string where "redB = ESC # ''[1;31m''"
definition greenB :: string where "greenB = ESC # ''[1;32m''"
definition yellowN :: string where "yellowN = ESC # ''[0;33m''"
definition yellowB :: string where "yellowB = ESC # ''[1;33m''"
definition blueB :: string where "blueB = ESC # ''[1;34m''"
definition cyanB :: string where "cyanB = ESC # ''[1;36m''"
definition whiteN :: string where "whiteN = ESC # ''[0;37m''"
definition whiteB :: string where "whiteB = ESC # ''[1;37m''"
definition redN :: string where "redN = ESC # ''[0;31m''"
definition greenN :: string where "greenN = ESC # ''[0;32m''"
definition blueN :: string where "blueN = ESC # ''[0;34m''"
definition magentaN :: string where "magentaN = ESC # ''[0;35m''"
definition cyanN :: string where "cyanN = ESC # ''[0;36m''"

text \<open>The list \<open>display\<close> of the configured fields, in display order.\<close>

definition display :: "string list" where
  "display = [''user'', ''hostname'', ''distro'', ''pimodel'', ''kernel'', ''uptime'', ''wm'',
              ''de'', ''sh'', ''term'', ''packages'', ''resolution'', ''gpu'', ''cpu'', ''ram'',
              ''disk'']"

datatype Distro =
    Arch | BunsenLabs | CrunchBang | CentOS | Debian | Elementary | Fedora | FreeBSD
  | Kubuntu | Linuxmint | MacOS | Manjaro | ManjaroARM | Neon | PopOS | Raspbian
  | Ubuntu | Zorin | Unknown

definition DistroEnumDict :: "string \<rightharpoonup> Distro" where
  "DistroEnumDict = map_of
     [(''Arch'', Arch), (''Bunsenlabs'', BunsenLabs), (''Centos'', CentOS),
      (''CrunchBang'', CrunchBang), (''Debian'', Debian), (''Elementary'', Elementary),
      (''Fedora'', Fedora), (''Freebsd'', FreeBSD), (''Kubuntu'', Kubuntu),
      (''Linuxmint'', Linuxmint), (''MacOS'', MacOS), (''Manjaro'', Manjaro),
      (''Manjaro-ARM'', ManjaroARM), (''Neon'', Neon), (''Pop'', PopOS),
      (''Raspbian'', Raspbian), (''Ubuntu'', Ubuntu), (''Zorin'', Zorin)]"

definition DesktopEnvironmentProcessDict :: "string \<rightharpoonup> string" where
  "DesktopEnvironmentProcessDict = map_of
     [(''cinnamon'', ''Cinnamon''), (''dde-dock'', ''Deepin''), (''fur-box-session'', ''Fur Box''),
      (''gnome-session'', ''GNOME''), (''gnome-shell'', ''GNOME''), (''ksmserver'', ''KDE''),
      (''lxqt-session'', ''LXQt''), (''lxsession'', ''LXDE''), (''mate-session'', ''MATE''),
      (''xfce4-session'', ''Xfce'')]"

definition DesktopEnvironmentShellVarDict :: "string \<rightharpoonup> string" where
  "DesktopEnvironmentShellVarDict = map_of
     [(''X-Cinnamon'', ''Cinnamon''), (''GNOME'', ''GNOME''), (''pop:GNOME'', ''GNOME''),
      (''ubuntu:GNOME'', ''GNOME''), (''KDE'', ''KDE''), (''LXDE'', ''LXDE''), (''MATE'', ''MATE''),
      (''Pantheon'', ''Pantheon''), (''unity'', ''Unity''), (''Unity'', ''Unity''),
      (''XFCE'', ''Xfce'')]"

definition DistroColourDict :: "Distro \<rightharpoonup> string" where
  "DistroColourDict = map_of
     [(Arch, blueB), (BunsenLabs, whiteN), (CentOS, blueB), (CrunchBang, whiteN),
      (Debian, redB), (Elementary, blueB), (Fedora, blueB), (FreeBSD, redB),
      (Kubuntu, cyanB), (Linuxmint, greenB), (MacOS, yellowN), (Manjaro, greenB),
      (ManjaroARM, greenB), (Neon, blueB), (PopOS, cyanB), (Raspbian, redB),
      (Ubuntu, redB), (Zorin, cyanB)]"

definition MacOSVersion_dict :: "string \<rightharpoonup> string" where
  "MacOSVersion_dict = map_of
     [(''10.4'', ''Mac OS X Tiger''), (''10.5'', ''Mac OS X Leopard''),
      (''10.6'', ''Mac OS X Snow Leopard''), (''10.7'', ''Mac OS X Lion''),
      (''10.8'', ''OS X Mountain Lion''), (''10.9'', ''OS X Mavericks''),
      (''10.10'', ''OS X Yosemite''), (''10.11'', ''OS X El Capitan''),
      (''10.12'', ''macOS Sierra''), (''10.13'', ''macOS High Sierra''),
      (''10.14'', ''macOS Mojave''), (''10.15'', ''macOS Catalina''),
      (''10.16'', ''macOS Big Sur''), (''11.0'', ''macOS Big Sur'')]"

text \<open>
  The global variables of the module (lines 261 to 264). \<open>initial_globals\<close> is their
  state when \<open>IdentifyOS\<close> is called.
\<close>

record globals =
  result :: "string list"
  DistroID :: Distro
  DistroTitle :: string
  GlobalTerminal :: string

definition initial_globals :: globals where
  "initial_globals =
     \<lparr>result = [], DistroID = Unknown, DistroTitle = ''Unknown'', GlobalTerminal = ''Unset''\<rparr>"

text \<open>The exceptions that the modelled code can raise; the string says what was missing.\<close>

datatype error = FileNotFoundError string | KeyError string | OtherError string

text \<open>
  What the program reads from the machine it runs on. Running commands, the parsers of
  the two structured files and the process table are outside the program; the record
  holds their answers.
\<close>

record host =
  installed :: "string \<Rightarrow> bool"
    \<comment> \<open>whether \<open>which\<close> finds the command: the result of \<open>CheckCommandInstalled\<close>\<close>
  first_line :: "string \<times> string list \<Rightarrow> string"
    \<comment> \<open>first line of the standard output of a command that is installed\<close>
  os_release :: "(string \<rightharpoonup> string) option"
    \<comment> \<open>\<open>dotenv_values('/etc/os-release')\<close>, each key with the string that is assigned
        to it; \<open>None\<close> when the file does not exist\<close>
  system_version :: "(string \<rightharpoonup> string) option"
    \<comment> \<open>\<open>plistlib.load\<close> of SystemVersion.plist; \<open>None\<close> when the file cannot be opened\<close>
  device_tree_model :: "string option"
    \<comment> \<open>contents of \<open>/proc/device-tree/model\<close>; \<open>None\<close> when the file does not exist\<close>
  getenv :: "string \<rightharpoonup> string"
    \<comment> \<open>\<open>os.getenv\<close>\<close>
  process_names :: "string option list"
    \<comment> \<open>\<open>proc.name()\<close> for each process of \<open>psutil.process_iter()\<close>; \<open>None\<close> where it
        raises one of the three exceptions that the loop catches\<close>
  probe :: "string \<Rightarrow> error + string"
    \<comment> \<open>the value which the named block of a collector computes from commands and files
        without touching the global variables, or the exception it raises\<close>

section \<open>Archey: ANSI-aware layout engine\<close>

subsection \<open>The escape-sequence grammar of \<open>ANSILen\<close>\<close>

text \<open>
  \<^verbatim>\<open>integer = Word(nums)\<close>
  \<^verbatim>\<open>escapeSeq = Combine(Literal('\x1b') + '[' + Optional(delimitedList(integer,';')) + oneOf(list(alphas)))\<close>

  \<open>nums\<close> are the ten decimal digits and \<open>alphas\<close> the 52 ASCII letters.
  \<open>Combine\<close> forbids white space between the parts, and the parts are matched
  greedily from left to right without backtracking.
\<close>

definition nums :: "char \<Rightarrow> bool" where
  "nums c = (let n = (of_char c :: nat) in 48 \<le> n \<and> n \<le> 57)"

definition alphas :: "char \<Rightarrow> bool" where
  "alphas c = (let n = (of_char c :: nat) in (65 \<le> n \<and> n \<le> 90) \<or> (97 \<le> n \<and> n \<le> 122))"

text \<open>\<open>Word(nums)\<close>: one or more digits; the result is the input left after them.\<close>

definition integer :: "string \<Rightarrow> string option" where
  "integer s = (case s of [] \<Rightarrow> None
                | c # cs \<Rightarrow> if nums c then Some (dropWhile nums cs) else None)"

lemma integer_shorter: "integer s = Some r \<Longrightarrow> length r < length s"
  by (auto simp: integer_def split: list.splits if_splits intro: le_imp_less_Suc length_dropWhile_le)

text \<open>
  The repetition inside \<open>delimitedList(integer, ';')\<close>: as long as a \<open>;\<close> followed by an
  integer is there, consume both; a \<open>;\<close> with no integer behind it is left in the input.
\<close>

function more_integers :: "string \<Rightarrow> string" where
  "more_integers s =
     (case s of [] \<Rightarrow> []
      | c # cs \<Rightarrow> if c = CHR '';'' then
                   (case integer cs of None \<Rightarrow> s | Some r \<Rightarrow> more_integers r)
                 else s)"
  by pat_completeness auto
termination
  by (relation "measure length") (auto dest: integer_shorter)

declare more_integers.simps [simp del]

definition delimitedList :: "string \<Rightarrow> string option" where
  "delimitedList s = (case integer s of None \<Rightarrow> None | Some r \<Rightarrow> Some (more_integers r))"

text \<open>
  \<open>escapeSeq s\<close> is \<open>Some r\<close> when an escape sequence starts at the head of \<open>s\<close> and \<open>r\<close>
  is the input after it, \<open>None\<close> when none starts there.
\<close>

definition escapeSeq :: "string \<Rightarrow> string option" where
  "escapeSeq s =
     (case s of
        e # b # r \<Rightarrow>
          if e = ESC \<and> b = CHR ''['' then
            (case (case delimitedList r of None \<Rightarrow> r | Some r' \<Rightarrow> r') of
               [] \<Rightarrow> None
             | l # rest \<Rightarrow> if alphas l then Some rest else None)
          else None
      | _ \<Rightarrow> None)"

lemma more_integers_Nil [simp]: "more_integers [] = []"
  by (simp add: more_integers.simps [of "[]"])

lemma more_integers_Cons [simp]:
  "more_integers (c # cs) =
     (if c = CHR '';'' then (case integer cs of None \<Rightarrow> c # cs | Some r \<Rightarrow> more_integers r)
      else c # cs)"
  by (simp add: more_integers.simps [of "c # cs"])

lemma more_integers_le: "length (more_integers s) \<le> length s"
proof (induction s rule: more_integers.induct)
  case (1 s)
  show ?case
  proof (cases s)
    case Nil
    then show ?thesis by simp
  next
    case (Cons c cs)
    show ?thesis
    proof (cases "c = CHR '';''")
      case False
      with Cons show ?thesis by simp
    next
      case True
      show ?thesis
      proof (cases "integer cs")
        case None
        with Cons True show ?thesis by simp
      next
        case (Some r)
        from "1.IH" [OF Cons True Some] integer_shorter [OF Some] Cons True Some
        show ?thesis by simp
      qed
    qed
  qed
qed

lemma delimitedList_shorter: "delimitedList s = Some r \<Longrightarrow> length r < length s"
  using more_integers_le integer_shorter
  by (fastforce simp: delimitedList_def split: option.splits intro: le_less_trans)

lemma escapeSeq_shorter: "escapeSeq s = Some r \<Longrightarrow> length r < length s"
  by (auto simp: escapeSeq_def split: list.splits if_splits option.splits dest!: delimitedList_shorter)

text \<open>
  \<^verbatim>\<open>Suppress(escapeSeq).transformString(ANSIString)\<close> scans the string from the left: where
  an escape sequence starts it is dropped and the scan goes on behind it, otherwise the
  character is kept and the scan goes on at the next one.
\<close>

function transformString :: "string \<Rightarrow> string" where
  "transformString [] = []"
| "transformString (c # cs) =
     (case escapeSeq (c # cs) of
        Some rest \<Rightarrow> transformString rest
      | None \<Rightarrow> c # transformString cs)"
  by pat_completeness auto
termination
  by (relation "measure length") (auto dest: escapeSeq_shorter)


text \<open>
  \<^verbatim>\<open>return(len(NonANSIString), len(ANSIString)-len(NonANSIString))\<close>
\<close>

definition ANSILen :: "string \<Rightarrow> int \<times> int" where
  "ANSILen ANSIString =
     (let NonANSIString = transformString ANSIString
      in (int (length NonANSIString), int (length ANSIString) - int (length NonANSIString)))"

text \<open>Python's \<open>str.ljust(width)\<close> with the default fill character, for any integer width.\<close>

definition ljust :: "string \<Rightarrow> int \<Rightarrow> string" where
  "ljust s width =
     (if width \<le> int (length s) then s
      else s @ replicate (nat (width - int (length s))) CHR '' '')"

definition ANSIljust :: "string \<Rightarrow> int \<Rightarrow> string" where
  "ANSIljust ANSIString MinLength =
     (let ANSICount = snd (ANSILen ANSIString)
      in ljust ANSIString (MinLength + ANSICount))"

text \<open>Python's slice \<open>s[:k]\<close>: a negative \<open>k\<close> counts from the end.\<close>

definition slice_to :: "'a list \<Rightarrow> int \<Rightarrow> 'a list" where
  "slice_to s k = (if 0 \<le> k then take (nat k) s else take (length s - nat (- k)) s)"

subsection \<open>Merging the logo and the result lines\<close>

text \<open>
  \<^verbatim>\<open>TerminalColumns = RawTerminalColumns - 1\<close>, where \<open>RawTerminalColumns\<close> is the column
  count reported by \<open>stty size\<close> (80 when it reports nothing usable).
\<close>

definition TerminalColumns :: "int \<Rightarrow> int" where
  "TerminalColumns RawTerminalColumns = RawTerminalColumns - 1"

text \<open>The loop that finds the widest logo line, not counting escape sequences.\<close>

fun MinLogoWidth_loop :: "string list \<Rightarrow> int \<Rightarrow> int" where
  "MinLogoWidth_loop [] MinLogoWidth = MinLogoWidth"
| "MinLogoWidth_loop (EachLine # rest) MinLogoWidth =
     (let LenLogoLine = fst (ANSILen EachLine)
      in MinLogoWidth_loop rest (if LenLogoLine > MinLogoWidth then LenLogoLine else MinLogoWidth))"

text \<open>
  The \<open>else\<close> branch of the merge (lines 1690 to 1711). Its arguments are the logo
  that \<open>DefineDistroLogo\<close> returns and the list \<open>result\<close>: the shorter list is
  extended with empty strings, then the two lists are zipped.
\<close>

definition MergeLogo :: "string list \<Rightarrow> string list \<Rightarrow> string list" where
  "MergeLogo LogoOutputList0 result0 =
     (let ListSizeDiff = int (length LogoOutputList0) - int (length result0);
          result1 = (if ListSizeDiff > 0 then result0 @ replicate (nat ListSizeDiff) []
                     else result0);
          LogoOutputList = (if ListSizeDiff > 0 then LogoOutputList0
                            else if ListSizeDiff < 0
                              then LogoOutputList0 @ replicate (nat \<bar>ListSizeDiff\<bar>) []
                            else LogoOutputList0);
          MinLogoWidth = MinLogoWidth_loop LogoOutputList 0
      in map (\<lambda>(EachLogo, EachData). ANSIljust EachLogo MinLogoWidth @ ''    '' @ EachData)
           (zip LogoOutputList result1))"

text \<open>
  \<^verbatim>\<open>if TerminalColumns < 70: ArcheyOutputList = result\<close>, else the merge. The first
  argument is the value of the program's variable \<open>TerminalColumns\<close>.
\<close>

definition ArcheyOutputList :: "int \<Rightarrow> string list \<Rightarrow> string list \<Rightarrow> string list" where
  "ArcheyOutputList TermCols LogoOutputList result0 =
     (if TermCols < 70 then result0 else MergeLogo LogoOutputList result0)"

text \<open>The final loop: what \<open>print\<close> receives for each line.\<close>

definition print_line :: "int \<Rightarrow> string \<Rightarrow> string" where
  "print_line TermCols EachLine =
     (let ANSIChars = snd (ANSILen EachLine)
      in slice_to EachLine (TermCols + ANSIChars))"

definition printed_lines :: "int \<Rightarrow> string list \<Rightarrow> string list" where
  "printed_lines TermCols Lines = map (print_line TermCols) Lines"

subsection \<open>Strings made of visible characters and escape sequences\<close>

text \<open>
  The strings that the layout engine is meant for: visible characters (any character but
  the escape character) interleaved with colour and style sequences, each of them the
  escape character, \<open>[\<close>, numeric parameters separated by \<open>;\<close> (possibly none) and one
  ASCII letter.
\<close>

datatype piece = Visible char | EscapeSequence "string list" char

fun join_parameters :: "string list \<Rightarrow> string" where
  "join_parameters [] = []"
| "join_parameters [p] = p"
| "join_parameters (p # q # ps) = p @ CHR '';'' # join_parameters (q # ps)"

fun render_piece :: "piece \<Rightarrow> string" where
  "render_piece (Visible c) = [c]"
| "render_piece (EscapeSequence params letter) =
     ESC # CHR ''['' # join_parameters params @ [letter]"

definition render :: "piece list \<Rightarrow> string" where
  "render ps = concat (map render_piece ps)"

fun valid_piece :: "piece \<Rightarrow> bool" where
  "valid_piece (Visible c) = (c \<noteq> ESC)"
| "valid_piece (EscapeSequence params letter) =
     (list_all (\<lambda>p. p \<noteq> [] \<and> list_all nums p) params \<and> alphas letter)"

fun visible_characters :: "piece list \<Rightarrow> string" where
  "visible_characters [] = []"
| "visible_characters (Visible c # ps) = c # visible_characters ps"
| "visible_characters (EscapeSequence params letter # ps) = visible_characters ps"

fun escape_characters :: "piece list \<Rightarrow> nat" where
  "escape_characters [] = 0"
| "escape_characters (Visible c # ps) = escape_characters ps"
| "escape_characters (EscapeSequence params letter # ps) =
     length (render_piece (EscapeSequence params letter)) + escape_characters ps"

section \<open>Archey: identifying the operating system\<close>

subsection \<open>Commands\<close>

definition CheckCommandInstalled :: "host \<Rightarrow> string \<Rightarrow> bool" where
  "CheckCommandInstalled h CommandName = installed h CommandName"

text \<open>
  \<open>GetCommandOutput\<close>: every call passes a literal list with the command name first; the
  list is modelled as the name and the arguments.
\<close>

definition GetCommandOutput :: "host \<Rightarrow> string \<times> string list \<Rightarrow> string" where
  "GetCommandOutput h CommandList =
     (if CheckCommandInstalled h (fst CommandList) then first_line h CommandList else '''')"

subsection \<open>String methods of Python\<close>

definition to_upper :: "char \<Rightarrow> char" where
  "to_upper c = (let n = (of_char c :: nat) in if 97 \<le> n \<and> n \<le> 122 then char_of (n - 32) else c)"

definition to_lower :: "char \<Rightarrow> char" where
  "to_lower c = (let n = (of_char c :: nat) in if 65 \<le> n \<and> n \<le> 90 then char_of (n + 32) else c)"

text \<open>\<open>str.capitalize()\<close>, on ASCII letters; other characters are left as they are.\<close>

definition capitalize :: "string \<Rightarrow> string" where
  "capitalize s = (case s of [] \<Rightarrow> [] | c # cs \<Rightarrow> to_upper c # map to_lower cs)"

text \<open>\<open>s.find(c, start)\<close> for a single character: the first index from \<open>start\<close> on, or -1.\<close>

fun index_from :: "char \<Rightarrow> string \<Rightarrow> nat \<Rightarrow> int" where
  "index_from c [] i = - 1"
| "index_from c (x # xs) i = (if x = c then int i else index_from c xs (Suc i))"

definition find_char :: "string \<Rightarrow> char \<Rightarrow> nat \<Rightarrow> int" where
  "find_char s c start = index_from c (drop start s) start"

text \<open>\<open>sub in s\<close> for strings.\<close>

fun is_in :: "string \<Rightarrow> string \<Rightarrow> bool" where
  "is_in sub [] = (sub = [])"
| "is_in sub (c # cs) = (prefix sub (c # cs) \<or> is_in sub cs)"

subsection \<open>The desktop environment\<close>

text \<open>
  The loop over the processes: a process whose name is a key of
  \<open>DesktopEnvironmentProcessDict\<close> sets the desktop environment (the \<open>break\<close> leaves the
  inner loop only, so a later process overrides an earlier one); a process whose name
  cannot be read is skipped.
\<close>

fun process_loop :: "string option list \<Rightarrow> string \<Rightarrow> string" where
  "process_loop [] DesktopEnvironment = DesktopEnvironment"
| "process_loop (None # procs) DesktopEnvironment = process_loop procs DesktopEnvironment"
| "process_loop (Some processName # procs) DesktopEnvironment =
     process_loop procs
       (case DesktopEnvironmentProcessDict processName of
          Some de_name \<Rightarrow> de_name
        | None \<Rightarrow> DesktopEnvironment)"

text \<open>\<open>DesktopEvironmentID\<close> reads the global variable \<open>DistroID\<close>.\<close>

definition DesktopEvironmentID :: "host \<Rightarrow> globals \<Rightarrow> string" where
  "DesktopEvironmentID h g =
     (if DistroID g = MacOS then ''Aqua''
      else
        (case (case getenv h ''XDG_CURRENT_DESKTOP'' of
                 None \<Rightarrow> None
               | Some DesktopEnvironmentShellVar \<Rightarrow>
                   DesktopEnvironmentShellVarDict DesktopEnvironmentShellVar) of
           Some de \<Rightarrow> de
         | None \<Rightarrow> process_loop (process_names h) ''None''))"

subsection \<open>\<open>IdentifyOS\<close>\<close>

text \<open>
  Lines 1037 to 1040: the kernel name, \<open>''Unknown''\<close> when \<open>uname\<close> is not installed.
\<close>

definition DetectBaseSystem :: "host \<Rightarrow> string" where
  "DetectBaseSystem h =
     (if CheckCommandInstalled h ''uname'' then GetCommandOutput h (''uname'', [''-s''])
      else ''Unknown'')"

text \<open>
  Lines 1043 to 1058, the branch for Darwin: \<open>open\<close> of the property list and the
  subscript \<open>SystemVersionInfo['ProductUserVisibleVersion']\<close> are not guarded, so each can
  raise. The result is the pair \<open>(OSReleaseID, OSReleasePretty)\<close>.
\<close>

definition IdentifyDarwin :: "host \<Rightarrow> error + (string \<times> string)" where
  "IdentifyDarwin h =
     (case system_version h of
        None \<Rightarrow> Inl (FileNotFoundError ''/System/Library/CoreServices/SystemVersion.plist'')
      | Some SystemVersionInfo \<Rightarrow>
          (case SystemVersionInfo ''ProductUserVisibleVersion'' of
             None \<Rightarrow> Inl (KeyError ''ProductUserVisibleVersion'')
           | Some OSXVersion \<Rightarrow>
               (let MinorVersionLocation =
                      find_char OSXVersion CHR ''.''
                        (nat (find_char OSXVersion CHR ''.'' 0 + 1));
                    BaseOSXVersion = slice_to OSXVersion MinorVersionLocation
                in Inr (''MacOS'',
                        case MacOSVersion_dict BaseOSXVersion of
                          Some name \<Rightarrow> name @ '' ('' @ OSXVersion @ '')''
                        | None \<Rightarrow> ''Mac OS Version '' @ OSXVersion))))"

text \<open>Lines 1060 to 1090, the branch for Linux and FreeBSD.\<close>

definition IdentifyLinux :: "host \<Rightarrow> string \<times> string" where
  "IdentifyLinux h =
     (case os_release h of
        Some OSRelease \<Rightarrow>
          (case OSRelease ''ID'' of Some v \<Rightarrow> capitalize v | None \<Rightarrow> ''Undetermined'',
           case OSRelease ''PRETTY_NAME'' of Some v \<Rightarrow> v | None \<Rightarrow> ''Undetermined'')
      | None \<Rightarrow>
          if CheckCommandInstalled h ''lsb_release'' then
            (GetCommandOutput h (''lsb_release'', [''-is'']),
             GetCommandOutput h (''lsb_release'', [''-ds'']))
          else (''Undetermined'', ''Undetermined''))"

text \<open>
  Lines 1037 to 1099: the cascade on the kernel name, then the architecture is put behind
  the pretty name when \<open>uname\<close> is installed.
\<close>

definition IdentifyBase :: "host \<Rightarrow> error + (string \<times> string)" where
  "IdentifyBase h =
     (case (if DetectBaseSystem h = ''Darwin'' then IdentifyDarwin h
            else if DetectBaseSystem h \<in> set [''Linux'', ''FreeBSD''] then Inr (IdentifyLinux h)
            else Inr (''Undetermined'', ''Undetermined'')) of
        Inl e \<Rightarrow> Inl e
      | Inr (OSReleaseID, OSReleasePretty) \<Rightarrow>
          Inr (OSReleaseID,
               if CheckCommandInstalled h ''uname''
               then OSReleasePretty @ '' '' @ GetCommandOutput h (''uname'', [''-m''])
               else OSReleasePretty))"

text \<open>Lines 1104 to 1106: the special case for Kubuntu.\<close>

definition KubuntuCase :: "host \<Rightarrow> globals \<Rightarrow> string \<times> string \<Rightarrow> string \<times> string" where
  "KubuntuCase h g p =
     (case p of (OSReleaseID, OSReleasePretty) \<Rightarrow>
        if OSReleaseID = ''Ubuntu'' \<and> DesktopEvironmentID h g = ''KDE''
        then (''Kubuntu'', ''Ku'' @ drop 1 OSReleasePretty)
        else (OSReleaseID, OSReleasePretty))"

text \<open>Lines 1109 to 1114: the special case for a Raspberry Pi that reports Debian.\<close>

definition RaspbianCase :: "host \<Rightarrow> string \<times> string \<Rightarrow> string \<times> string" where
  "RaspbianCase h p =
     (case p of (OSReleaseID, OSReleasePretty) \<Rightarrow>
        (case (if OSReleaseID = ''Debian'' then device_tree_model h else None) of
           Some ModelInfo \<Rightarrow>
             if is_in ''Raspberry Pi'' ModelInfo
             then (''Raspbian'', ''Rasp'' @ drop 2 OSReleasePretty)
             else (OSReleaseID, OSReleasePretty)
         | None \<Rightarrow> (OSReleaseID, OSReleasePretty)))"

text \<open>Lines 1117 to 1122: the identity from the table, and the triple that is returned.\<close>

definition IdentifyOS :: "host \<Rightarrow> globals \<Rightarrow> error + (string \<times> Distro \<times> string)" where
  "IdentifyOS h g =
     (case IdentifyBase h of
        Inl e \<Rightarrow> Inl e
      | Inr p \<Rightarrow>
          (case RaspbianCase h (KubuntuCase h g p) of (OSReleaseID, OSReleasePretty) \<Rightarrow>
             Inr (OSReleaseID,
                  case DistroEnumDict OSReleaseID of Some d \<Rightarrow> d | None \<Rightarrow> Unknown,
                  OSReleasePretty)))"

subsection \<open>Example machines\<close>

text \<open>
  A Linux machine on x86_64 whose \<open>/etc/os-release\<close> says Ubuntu 22.04.3 LTS and whose
  \<open>XDG_CURRENT_DESKTOP\<close> is KDE.
\<close>

definition kde_host :: host where
  "kde_host =
     \<lparr>installed = (\<lambda>c. c = ''uname''),
      first_line = (\<lambda>c. if c = (''uname'', [''-s'']) then ''Linux''
                         else if c = (''uname'', [''-m'']) then ''x86_64''
                         else if c = (''uname'', [''-sr'']) then ''Linux 5.15.0-91-generic''
                         else ''''),
      os_release = Some [''ID'' \<mapsto> ''ubuntu'', ''PRETTY_NAME'' \<mapsto> ''Ubuntu 22.04.3 LTS''],
      system_version = None,
      device_tree_model = None,
      getenv = [''XDG_CURRENT_DESKTOP'' \<mapsto> ''KDE''],
      process_names = [Some ''systemd'', None, Some ''ksmserver''],
      probe = (\<lambda>n. Inr ''Undetermined'')\<rparr>"

text \<open>A Raspberry Pi 4 running the 64-bit Raspberry Pi OS, which reports Debian.\<close>

definition pi_host :: host where
  "pi_host =
     \<lparr>installed = (\<lambda>c. c = ''uname''),
      first_line = (\<lambda>c. if c = (''uname'', [''-s'']) then ''Linux''
                         else if c = (''uname'', [''-m'']) then ''aarch64''
                         else ''''),
      os_release = Some [''ID'' \<mapsto> ''debian'',
                         ''PRETTY_NAME'' \<mapsto> ''Debian GNU/Linux 12 (bookworm)''],
      system_version = None,
      device_tree_model = Some ''Raspberry Pi 4 Model B Rev 1.4'',
      getenv = Map.empty,
      process_names = [],
      probe = (\<lambda>n. Inr ''Undetermined'')\<rparr>"




section \<open>Archey: the collectors and the loop over the fields\<close>

text \<open>
  \<open>output(key, value)\<close> appends one line to the global list \<open>result\<close>; the label has the
  colour of the distribution, \<open>redB\<close> when the table has none.
\<close>

definition "output" :: "string \<Rightarrow> string \<Rightarrow> globals \<Rightarrow> globals" where
  "output key val g =
     (let DistroColour = (case DistroColourDict (DistroID g) of Some c \<Rightarrow> c | None \<Rightarrow> redB)
      in g\<lparr>result := result g @ [DistroColour @ key @ '':'' @ clear @ '' '' @ val]\<rparr>)"

text \<open>
  A collector whose body computes one value from commands and files and passes it to
  \<open>output\<close> in its last statement; an exception in the body ends the run.
\<close>

definition output_computed :: "string \<Rightarrow> error + string \<Rightarrow> globals \<Rightarrow> error + globals" where
  "output_computed key computed g =
     (case computed of Inl e \<Rightarrow> Inl e | Inr val \<Rightarrow> Inr (output key val g))"

text \<open>
  \<open>IdentifyTerminal\<close> caches the name of the terminal program in \<open>GlobalTerminal\<close>; it
  returns the name and leaves the other global variables as they are.
\<close>

definition IdentifyTerminal :: "host \<Rightarrow> globals \<Rightarrow> error + (string \<times> globals)" where
  "IdentifyTerminal h g =
     (if GlobalTerminal g = ''Unset'' then
        (case probe h ''GrandParentProcess.name'' of
           Inl e \<Rightarrow> Inl e
         | Inr name \<Rightarrow> Inr (name, g\<lparr>GlobalTerminal := name\<rparr>))
      else Inr (GlobalTerminal g, g))"

definition TTYID :: "host \<Rightarrow> string" where
  "TTYID h =
     (if CheckCommandInstalled h ''tty'' then GetCommandOutput h (''tty'', [])
      else ''Undetermined'')"

definition ram_display :: "host \<Rightarrow> globals \<Rightarrow> error + globals" where
  "ram_display h g = output_computed ''RAM'' (probe h ''ram'') g"

definition distro_display :: "host \<Rightarrow> globals \<Rightarrow> error + globals" where
  "distro_display h g = Inr (output ''OS'' (DistroTitle g) g)"

text \<open>
  In \<open>kernel_display\<close> the test is \<^verbatim>\<open>if Distro != Distro.FreeBSD\<close>: its left side is the
  enumeration class, not the variable \<open>DistroID\<close>. The two sides are modelled as Python
  objects; a class and a member are different objects.
\<close>

datatype pyobject = EnumClass string | EnumMember Distro

definition kernel_display :: "host \<Rightarrow> globals \<Rightarrow> error + globals" where
  "kernel_display h g =
     (if EnumClass ''Distro'' \<noteq> EnumMember FreeBSD then
        (let kernel = GetCommandOutput h (''uname'', [''-sr''])
         in Inr (output ''Kernel'' kernel g))
      else Inr g)"

definition user_display :: "host \<Rightarrow> globals \<Rightarrow> error + globals" where
  "user_display h g = output_computed ''User'' (probe h ''getuser'') g"

definition hostname_display :: "host \<Rightarrow> globals \<Rightarrow> error + globals" where
  "hostname_display h g = output_computed ''Hostname'' (probe h ''hostname'') g"

definition cpu_display :: "host \<Rightarrow> globals \<Rightarrow> error + globals" where
  "cpu_display h g = output_computed ''CPU'' (probe h ''cpu'') g"

definition uptime_display :: "host \<Rightarrow> globals \<Rightarrow> error + globals" where
  "uptime_display h g = output_computed ''Uptime'' (probe h ''uptime'') g"

definition de_display :: "host \<Rightarrow> globals \<Rightarrow> error + globals" where
  "de_display h g =
     (let DesktopEnvironment = DesktopEvironmentID h g
      in case (if DesktopEnvironment = ''KDE'' then probe h ''KDEVersionInfo''
               else if DesktopEnvironment = ''GNOME'' then probe h ''GNOMEVersionInfo''
               else Inr DesktopEnvironment) of
           Inl e \<Rightarrow> Inl e
         | Inr DesktopEnvironment' \<Rightarrow>
             if DesktopEnvironment' \<noteq> ''None''
             then Inr (output ''Desktop Environment'' DesktopEnvironment' g)
             else Inr g)"

text \<open>
  The end of \<open>wm_display\<close>: the session type is put behind the window manager, then the
  line is appended.
\<close>

definition wm_finish :: "host \<Rightarrow> string \<Rightarrow> globals \<Rightarrow> globals" where
  "wm_finish h WindowManager g =
     (case getenv h ''XDG_SESSION_TYPE'' of
        None \<Rightarrow> output ''Window Manager'' WindowManager g
      | Some SessionTypeShellVar \<Rightarrow>
          output ''Window Manager''
            (WindowManager @ '' ('' @
               (if SessionTypeShellVar \<noteq> ''tty'' then capitalize SessionTypeShellVar
                else SessionTypeShellVar) @ '')'') g)"

definition wm_display :: "host \<Rightarrow> globals \<Rightarrow> error + globals" where
  "wm_display h g =
     (if TTYID h \<in> set [''/dev/tty1'', ''/dev/ttyv0''] then Inr (wm_finish h ''Main Console'' g)
      else
        (case IdentifyTerminal h g of
           Inl e \<Rightarrow> Inl e
         | Inr (term, g') \<Rightarrow>
             if term = ''sshd'' then Inr (wm_finish h ''SSH Console'' g')
             else if DistroID g' = MacOS then Inr (wm_finish h ''Quartz Compositor'' g')
             else if CheckCommandInstalled h ''xprop'' then
               (case probe h ''xprop'' of
                  Inl e \<Rightarrow> Inl e
                | Inr WindowManager \<Rightarrow> Inr (wm_finish h WindowManager g'))
             else Inr (wm_finish h ''Undetermined (xprop not installed)'' g')))"

definition sh_display :: "host \<Rightarrow> globals \<Rightarrow> error + globals" where
  "sh_display h g = output_computed ''Shell'' (probe h ''sh'') g"

definition term_display :: "host \<Rightarrow> globals \<Rightarrow> error + globals" where
  "term_display h g =
     (case IdentifyTerminal h g of
        Inl e \<Rightarrow> Inl e
      | Inr (term, g') \<Rightarrow> Inr (output ''Terminal'' term g'))"

text \<open>\<open>packages_display\<close> has no \<open>else\<close>: for the other distributions nothing is appended.\<close>

definition packages_display :: "host \<Rightarrow> globals \<Rightarrow> error + globals" where
  "packages_display h g =
     (if DistroID g \<in> set [Ubuntu, Kubuntu, Raspbian, Debian, CrunchBang, Linuxmint, Zorin,
                            PopOS, Elementary]
      then output_computed ''Packages'' (probe h ''packages dpkg'') g
      else if DistroID g \<in> set [Arch, ManjaroARM, Manjaro]
      then output_computed ''Packages'' (probe h ''packages pacman'') g
      else if DistroID g = Fedora
      then output_computed ''Packages'' (probe h ''packages rpm'') g
      else if DistroID g = MacOS
      then output_computed ''Packages'' (probe h ''packages brew port'') g
      else Inr g)"

definition disk_display :: "host \<Rightarrow> globals \<Rightarrow> error + globals" where
  "disk_display h g =
     (case (if DistroID g = MacOS then probe h ''disk df -k''
            else if DistroID g = FreeBSD then Inr ''Unsupported''
            else probe h ''disk df -Tlh'') of
        Inl e \<Rightarrow> Inl e
      | Inr DiskOutput \<Rightarrow>
          if DiskOutput \<noteq> ''Unsupported'' then Inr (output ''Disk'' DiskOutput g) else Inr g)"

definition resolution_display :: "host \<Rightarrow> globals \<Rightarrow> error + globals" where
  "resolution_display h g =
     (if TTYID h \<in> set [''/dev/tty1'', ''/dev/ttyv0'']
      then output_computed ''Resolution'' (probe h ''resolution main console'') g
      else
        (case IdentifyTerminal h g of
           Inl e \<Rightarrow> Inl e
         | Inr (term, g') \<Rightarrow>
             if term = ''sshd''
             then output_computed ''Resolution'' (probe h ''resolution ssh console'') g'
             else output_computed ''Resolution'' (probe h ''resolution'') g'))"

definition gpu_display :: "host \<Rightarrow> globals \<Rightarrow> error + globals" where
  "gpu_display h g = output_computed ''GPU'' (probe h ''gpu'') g"

definition pimodel_display :: "host \<Rightarrow> globals \<Rightarrow> error + globals" where
  "pimodel_display h g =
     (case device_tree_model h of
        None \<Rightarrow> Inr g
      | Some ModelInfo \<Rightarrow>
          if is_in ''Raspberry'' ModelInfo then Inr (output ''Pi Model'' ModelInfo g)
          else Inr g)"

text \<open>
  \<^verbatim>\<open>func = locals()[FunctionName]\<close>: the functions of the module whose name ends in
  \<open>_display\<close>; any other name raises \<open>KeyError\<close>.
\<close>

definition locals_display :: "string \<rightharpoonup> (host \<Rightarrow> globals \<Rightarrow> error + globals)" where
  "locals_display = map_of
     [(''ram_display'', ram_display), (''distro_display'', distro_display),
      (''kernel_display'', kernel_display), (''user_display'', user_display),
      (''hostname_display'', hostname_display), (''cpu_display'', cpu_display),
      (''uptime_display'', uptime_display), (''de_display'', de_display),
      (''wm_display'', wm_display), (''sh_display'', sh_display),
      (''term_display'', term_display), (''packages_display'', packages_display),
      (''disk_display'', disk_display), (''resolution_display'', resolution_display),
      (''gpu_display'', gpu_display), (''pimodel_display'', pimodel_display)]"

text \<open>One round of the loop over \<open>display\<close> (lines 1647 to 1665), without the log.\<close>

definition run_attribute :: "host \<Rightarrow> string \<Rightarrow> globals \<Rightarrow> error + globals" where
  "run_attribute h EachAttribute g =
     (let FunctionName = EachAttribute @ ''_display''
      in case locals_display FunctionName of
           None \<Rightarrow> Inl (KeyError FunctionName)
         | Some func \<Rightarrow> func h g)"

fun run_display :: "host \<Rightarrow> string list \<Rightarrow> globals \<Rightarrow> error + globals" where
  "run_display h [] g = Inr g"
| "run_display h (EachAttribute # rest) g =
     (case run_attribute h EachAttribute g of
        Inl e \<Rightarrow> Inl e
      | Inr g' \<Rightarrow> run_display h rest g')"

subsection \<open>Example lines\<close>

text \<open>
  A line that \<open>ram_display\<close> appends: 1234 of 8000 MB used, on a distribution whose
  label colour is \<open>redB\<close>.
\<close>

definition RAM_line :: string where
  "RAM_line = redB @ ''RAM'' @ '':'' @ clear @ '' '' @ (greenB @ ''1234 MB '' @ clear @ ''/ 8000 MB'')"

text \<open>
  The first of the two lines of colour bars that the program appends to \<open>result\<close> after
  the loop (line 1668). \<open>bar\<close> stands for the character U+25AC of the source, which is
  outside the range of \<open>char\<close>; like U+25AC it is no digit, no letter and none of the
  characters of an escape sequence.
\<close>

definition bar :: char where
  "bar = CHR 0xAC"

definition colour_bars :: string where
  "colour_bars =
     redN @ replicate 5 bar @ '' '' @ greenN @ replicate 5 bar @ '' '' @
     yellowN @ replicate 5 bar @ '' '' @ blueN @ replicate 5 bar @ '' '' @
     magentaN @ replicate 5 bar @ '' '' @ cyanN @ replicate 5 bar @ clear"

text \<open>The widest line of the Ubuntu logo (line 282), 43 visible characters.\<close>

definition Ubuntu_logo_line :: string where
  "Ubuntu_logo_line =
     redB @ ''   oss'' @ whiteB @ ''yNMMMNyMMh'' @ redB @ ''ssssssssssssss'' @ whiteB @
     ''hmmmh'' @ redB @ ''ssssssso''"

text \<open>
  The relation between the global variables before and after a collector that the loop
  is meant to keep: \<open>result\<close> is as before, or has one more line at its end.
\<close>

definition at_most_one_appended :: "globals \<Rightarrow> globals \<Rightarrow> bool" where
  "at_most_one_appended g g' =
     (result g' = result g \<or> result g' = result g @ [last (result g')])"

section \<open>Properties of the layout engine\<close>

subsection \<open>Padding with spaces does not disturb the scan\<close>

lemma transformString_le: "length (transformString s) \<le> length s"
proof (induction s rule: transformString.induct)
  case 1 show ?case by simp
next
  case (2 c cs)
  show ?case
  proof (cases "escapeSeq (c # cs)")
    case None with 2 show ?thesis by simp
  next
    case (Some r)
    with 2 escapeSeq_shorter[OF Some] show ?thesis by simp
  qed
qed

lemma space_not_special:
  "\<not> nums CHR '' ''" "\<not> alphas CHR '' ''" "CHR '' '' \<noteq> ESC" "CHR '' '' \<noteq> CHR '';''"
  by (simp_all add: nums_def alphas_def ESC_def)

lemma dropWhile_nums_spaces:
  "dropWhile nums (cs @ replicate k CHR '' '') = dropWhile nums cs @ replicate k CHR '' ''"
proof (cases k)
  case 0 then show ?thesis by simp
next
  case (Suc j)
  then show ?thesis
    by (simp add: dropWhile_append3 space_not_special)
qed

lemma integer_spaces:
  "integer (s @ replicate k CHR '' '') = map_option (\<lambda>r. r @ replicate k CHR '' '') (integer s)"
proof (cases s)
  case Nil
  then show ?thesis by (cases k) (simp_all add: integer_def space_not_special)
next
  case (Cons c cs)
  then show ?thesis by (simp add: integer_def dropWhile_nums_spaces)
qed

lemma more_integers_spaces:
  "more_integers (s @ replicate k CHR '' '') = more_integers s @ replicate k CHR '' ''"
proof (induction s rule: more_integers.induct)
  case (1 s)
  show ?case
  proof (cases s)
    case Nil
    then show ?thesis by (cases k) (simp_all add: space_not_special)
  next
    case (Cons c cs)
    show ?thesis
    proof (cases "c = CHR '';''")
      case False
      with Cons show ?thesis by simp
    next
      case True
      show ?thesis
      proof (cases "integer cs")
        case None
        with Cons True show ?thesis by (simp add: integer_spaces)
      next
        case (Some r)
        from "1.IH"[OF Cons True Some] Cons True Some
        show ?thesis by (simp add: integer_spaces)
      qed
    qed
  qed
qed

lemma delimitedList_spaces:
  "delimitedList (s @ replicate k CHR '' '') =
     map_option (\<lambda>r. r @ replicate k CHR '' '') (delimitedList s)"
  by (simp add: delimitedList_def integer_spaces more_integers_spaces split: option.splits)

lemma letter_spaces:
  "(case r @ replicate k CHR '' '' of [] \<Rightarrow> None | l # rest \<Rightarrow> if alphas l then Some rest else None) =
   map_option (\<lambda>r. r @ replicate k CHR '' '')
     (case r of [] \<Rightarrow> None | l # rest \<Rightarrow> if alphas l then Some rest else None)"
proof (cases r)
  case Nil
  then show ?thesis by (cases k) (simp_all add: space_not_special)
next
  case (Cons l rest)
  then show ?thesis by simp
qed

lemma escapeSeq_spaces:
  "escapeSeq (s @ replicate k CHR '' '') = map_option (\<lambda>r. r @ replicate k CHR '' '') (escapeSeq s)"
proof (cases s)
  case Nil
  then show ?thesis
    by (cases k) (auto simp: escapeSeq_def space_not_special split: list.splits)
next
  case (Cons e s')
  note s = Cons
  show ?thesis
  proof (cases s')
    case Nil
    with s show ?thesis
      by (cases k) (auto simp: escapeSeq_def space_not_special split: list.splits)
  next
    case (Cons b r)
    show ?thesis
    proof (cases "e = ESC \<and> b = CHR ''[''")
      case False
      with s Cons show ?thesis by (auto simp: escapeSeq_def)
    next
      case True
      show ?thesis
      proof (cases "delimitedList r")
        case None
        with s Cons True letter_spaces[of r k] show ?thesis
          by (simp add: escapeSeq_def delimitedList_spaces)
      next
        case (Some r')
        with s Cons True letter_spaces[of r' k] show ?thesis
          by (simp add: escapeSeq_def delimitedList_spaces)
      qed
    qed
  qed
qed

lemma transformString_only_spaces:
  "transformString (replicate k CHR '' '') = replicate k CHR '' ''"
proof (induction k)
  case 0 show ?case by simp
next
  case (Suc k)
  have "escapeSeq (CHR '' '' # replicate k CHR '' '') = None"
    by (auto simp: escapeSeq_def space_not_special split: list.splits)
  with Suc show ?case by simp
qed

lemma transformString_spaces:
  "transformString (s @ replicate k CHR '' '') = transformString s @ replicate k CHR '' ''"
proof (induction s rule: transformString.induct)
  case 1
  show ?case by (simp add: transformString_only_spaces)
next
  case (2 c cs)
  show ?case
  proof (cases "escapeSeq (c # cs)")
    case None
    with escapeSeq_spaces[of "c # cs" k]
    have "escapeSeq (c # cs @ replicate k CHR '' '') = None" by simp
    with None 2 show ?thesis by simp
  next
    case (Some r)
    with escapeSeq_spaces[of "c # cs" k]
    have "escapeSeq (c # cs @ replicate k CHR '' '') = Some (r @ replicate k CHR '' '')" by simp
    with Some 2 show ?thesis by simp
  qed
qed

text \<open>
  Claim C5. For every string and every target width, \<open>ANSIljust\<close> gives a string whose
  visible length (the first component of \<open>ANSILen\<close>) is the larger of the target width
  and the visible length of the string: the width handed to \<open>ljust\<close> is the target plus
  the number of escape-sequence characters, and the spaces that are appended are all
  counted as visible.
\<close>

theorem ANSIljust_visible:
  "fst (ANSILen (ANSIljust s n)) = max n (fst (ANSILen s))"
proof (cases "n + snd (ANSILen s) \<le> int (length s)")
  case True
  then show ?thesis
    by (simp add: ANSIljust_def ljust_def ANSILen_def Let_def max_def)
next
  case False
  then show ?thesis
    using transformString_le[of s]
    by (simp add: ANSIljust_def ljust_def ANSILen_def Let_def max_def transformString_spaces)
qed

subsection \<open>What \<open>ANSILen\<close> counts\<close>

lemma alphas_not_nums: "alphas l \<Longrightarrow> \<not> nums l"
  by (auto simp: alphas_def nums_def Let_def)

lemma alphas_not_semicolon: "alphas l \<Longrightarrow> l \<noteq> CHR '';''"
  by (auto simp: alphas_def Let_def)

lemma semicolon_not_nums: "\<not> nums CHR '';''"
  by (simp add: nums_def)

lemma integer_digits:
  assumes "p \<noteq> []" "list_all nums p" "\<not> nums x"
  shows "integer (p @ x # r) = Some (x # r)"
proof (cases p)
  case Nil
  with assms show ?thesis by simp
next
  case (Cons c cs)
  with assms have "nums c" "\<forall>d\<in>set cs. nums d"
    by (simp_all add: list_all_iff)
  with assms(3) have "dropWhile nums (cs @ x # r) = x # r"
    by (simp add: dropWhile_append)
  with Cons \<open>nums c\<close> show ?thesis
    by (simp add: integer_def)
qed

lemma more_integers_parameters:
  assumes "list_all (\<lambda>p. p \<noteq> [] \<and> list_all nums p) ps" "\<not> nums l" "l \<noteq> CHR '';''"
  shows "more_integers (concat (map (\<lambda>p. CHR '';'' # p) ps) @ l # r) = l # r"
  using assms(1)
proof (induction ps)
  case Nil
  with assms show ?case by simp
next
  case (Cons p ps)
  obtain x r' where next_char: "concat (map (\<lambda>p. CHR '';'' # p) ps) @ l # r = x # r'"
    and "\<not> nums x"
    using assms(2) semicolon_not_nums by (cases ps) auto
  with Cons.prems have "integer (p @ x # r') = Some (x # r')"
    by (intro integer_digits) simp_all
  with next_char Cons show ?case
    by simp
qed

lemma join_parameters_Cons:
  "join_parameters (p # ps) = p @ concat (map (\<lambda>q. CHR '';'' # q) ps)"
  by (induction ps arbitrary: p) simp_all

lemma delimitedList_parameters:
  assumes "list_all (\<lambda>p. p \<noteq> [] \<and> list_all nums p) (p # ps)" "\<not> nums l" "l \<noteq> CHR '';''"
  shows "delimitedList (join_parameters (p # ps) @ l # r) = Some (l # r)"
proof -
  obtain x r' where next_char: "concat (map (\<lambda>p. CHR '';'' # p) ps) @ l # r = x # r'"
    and "\<not> nums x"
    using assms(2) semicolon_not_nums by (cases ps) auto
  with assms(1) have "integer (p @ x # r') = Some (x # r')"
    by (intro integer_digits) simp_all
  moreover from assms have "more_integers (x # r') = l # r"
    using more_integers_parameters [of ps l r] next_char by simp
  ultimately show ?thesis
    using next_char by (simp add: delimitedList_def join_parameters_Cons)
qed

lemma escapeSeq_valid:
  assumes "valid_piece (EscapeSequence params letter)"
  shows "escapeSeq (render_piece (EscapeSequence params letter) @ r) = Some r"
proof (cases params)
  case Nil
  from assms have "integer (letter # r) = None"
    by (simp add: integer_def alphas_not_nums)
  with Nil assms show ?thesis
    by (simp add: escapeSeq_def delimitedList_def)
next
  case (Cons p ps)
  with assms have "delimitedList (join_parameters (p # ps) @ letter # r) = Some (letter # r)"
    by (intro delimitedList_parameters) (simp_all add: alphas_not_nums alphas_not_semicolon)
  with Cons assms show ?thesis
    by (simp add: escapeSeq_def)
qed

lemma escapeSeq_visible: "c \<noteq> ESC \<Longrightarrow> escapeSeq (c # r) = None"
  by (simp add: escapeSeq_def split: list.splits)

lemma transformString_render:
  "list_all valid_piece ps \<Longrightarrow> transformString (render ps) = visible_characters ps"
proof (induction ps)
  case Nil
  show ?case by (simp add: render_def)
next
  case (Cons a ps)
  show ?case
  proof (cases a)
    case (Visible c)
    with Cons show ?thesis
      by (simp add: render_def escapeSeq_visible)
  next
    case (EscapeSequence params letter)
    with Cons.prems have v: "valid_piece (EscapeSequence params letter)"
      by simp
    have "transformString (render_piece (EscapeSequence params letter) @ render ps) =
            transformString (render ps)"
      using escapeSeq_valid [OF v, of "render ps"] by simp
    with Cons EscapeSequence show ?thesis
      by (simp add: render_def)
  qed
qed

lemma length_render:
  "length (render ps) = length (visible_characters ps) + escape_characters ps"
proof (induction ps)
  case Nil
  show ?case by (simp add: render_def)
next
  case (Cons a ps)
  then show ?case
    by (cases a) (simp_all add: render_def)
qed

text \<open>
  Claim C6. For a string made of visible characters and valid escape sequences,
  \<open>ANSILen\<close> returns the number of visible characters and the number of characters in
  the escape sequences; and the two counts of \<open>ANSILen\<close> add up to the length of the
  string (for such a string and for any other), the second count never being negative.
\<close>

theorem ANSILen_counts:
  "(list_all valid_piece ps \<longrightarrow>
      ANSILen (render ps) =
        (int (length (visible_characters ps)), int (escape_characters ps))) \<and>
   fst (ANSILen s) + snd (ANSILen s) = int (length s) \<and>
   0 \<le> snd (ANSILen s)"
  using transformString_le [of s]
  by (simp add: ANSILen_def Let_def transformString_render length_render)

theorem ANSILen_counts_witness:
  "list_all valid_piece
     [EscapeSequence [''1'', ''31''] CHR ''m'', Visible CHR ''O'', Visible CHR ''S'',
      EscapeSequence [] CHR ''m''] \<and>
   render [EscapeSequence [''1'', ''31''] CHR ''m'', Visible CHR ''O'', Visible CHR ''S'',
           EscapeSequence [] CHR ''m''] = ESC # ''[1;31mOS'' @ ESC # ''[m'' \<and>
   ANSILen (ESC # ''[1;31mOS'' @ ESC # ''[m'') = (2, 10)"
proof -
  let ?ps = "[EscapeSequence [''1'', ''31''] CHR ''m'', Visible CHR ''O'', Visible CHR ''S'',
              EscapeSequence [] CHR ''m'']"
  have v: "list_all valid_piece ?ps"
    by (simp add: nums_def alphas_def ESC_def)
  have r: "render ?ps = ESC # ''[1;31mOS'' @ ESC # ''[m''"
    by (simp add: render_def)
  from ANSILen_counts [of ?ps] v have "ANSILen (render ?ps) = (2, 10)"
    by simp
  with v r show ?thesis
    by simp
qed

subsection \<open>The merge and the truncation\<close>

text \<open>
  Claim C7. For a logo of \<open>L\<close> lines and \<open>D\<close> result lines the merge gives exactly
  \<open>max L D\<close> lines: the shorter list is extended with empty strings to the length of the
  longer one, and the two lists are paired line by line (the logo line justified to the
  width of the widest logo line, four spaces, the result line).
\<close>

theorem MergeLogo_max_lines:
  "length (MergeLogo logo data) = max (length logo) (length data) \<and>
   MergeLogo logo data =
     (let LogoOutputList = logo @ replicate (length data - length logo) [];
          padded_result = data @ replicate (length logo - length data) [];
          MinLogoWidth = MinLogoWidth_loop LogoOutputList 0
      in map (\<lambda>(EachLogo, EachData). ANSIljust EachLogo MinLogoWidth @ ''    '' @ EachData)
           (zip LogoOutputList padded_result))"
proof (cases "length data < length logo")
  case True
  have "nat (int (length logo) - int (length data)) = length logo - length data"
    by simp
  with True show ?thesis by (simp add: MergeLogo_def Let_def)
next
  case False
  show ?thesis
  proof (cases "length logo < length data")
    case True
    then have "nat (int (length data) - int (length logo)) = length data - length logo"
      by simp
    with True show ?thesis by (simp add: MergeLogo_def Let_def)
  next
    case False
    with \<open>\<not> length data < length logo\<close> have "length logo = length data" by simp
    then show ?thesis by (simp add: MergeLogo_def Let_def)
  qed
qed



text \<open>
  \<open>TerminalColumns\<close> is one less than the number of columns that \<open>stty size\<close> reports, so
  in terms of that number the logo is left out up to 70 columns and shown from 71 on.
\<close>

lemma logo_threshold_stty:
  "ArcheyOutputList (TerminalColumns RawTerminalColumns) logo lines =
     (if RawTerminalColumns < 71 then lines else MergeLogo logo lines)"
  by (simp add: ArcheyOutputList_def TerminalColumns_def)

text \<open>
  Claim C2. Every line is meant to be printed with at most \<open>TerminalColumns\<close> visible
  characters, and the code does not keep to that. With \<open>TerminalColumns = 10\<close> the line
  of the RAM collector is cut after \<open>10 + 22\<close> characters; two of its four escape
  sequences lie behind the first ten visible characters, so the cut comes too late: 13
  visible characters and a lone escape character are printed, and \<open>ANSILen\<close> counts 14
  visible characters in the printed string. With \<open>TerminalColumns = 79\<close> (a terminal of
  80 columns) a line of colour bars beside a logo that is 43 characters wide has 82
  visible characters; only the last three characters of its closing escape sequence
  are cut off, so all 82 are printed.
\<close>

theorem truncation_overshoot:
  "ArcheyOutputList 10 logo [RAM_line] = [RAM_line] \<and>
   print_line 10 RAM_line =
     ESC # ''[1;31mRAM:'' @ ESC # ''[0m '' @ ESC # ''[1;32m1234 MB '' @ [ESC] \<and>
   transformString (print_line 10 RAM_line) = ''RAM: 1234 MB '' @ [ESC] \<and>
   fst (ANSILen (print_line 10 RAM_line)) = 14 \<and>
   fst (ANSILen Ubuntu_logo_line) = 43 \<and>
   ArcheyOutputList 79 [Ubuntu_logo_line] [colour_bars] =
     [Ubuntu_logo_line @ ''    '' @ colour_bars] \<and>
   fst (ANSILen (Ubuntu_logo_line @ ''    '' @ colour_bars)) = 82 \<and>
   print_line 79 (Ubuntu_logo_line @ ''    '' @ colour_bars) =
     Ubuntu_logo_line @ ''    '' @ take 78 colour_bars \<and>
   fst (ANSILen (print_line 79 (Ubuntu_logo_line @ ''    '' @ colour_bars))) = 83"
  by (simp add: ArcheyOutputList_def) code_simp

section \<open>Properties of the identification of the operating system\<close>













text \<open>
  Claim C3. Kernel Linux, \<open>/etc/os-release\<close> with \<open>ID=ubuntu\<close> and
  \<open>PRETTY_NAME=Ubuntu 22.04.3 LTS\<close>, desktop environment KDE, architecture x86_64:
  \<open>IdentifyOS\<close> returns the identity \<open>Kubuntu\<close> and the pretty name
  \<open>Kubuntu 22.04.3 LTS x86_64\<close>.
\<close>

theorem Kubuntu_scenario:
  assumes "installed h ''uname''"
    and "first_line h (''uname'', [''-s'']) = ''Linux''"
    and "first_line h (''uname'', [''-m'']) = ''x86_64''"
    and "os_release h = Some OSRelease"
    and "OSRelease ''ID'' = Some ''ubuntu''"
    and "OSRelease ''PRETTY_NAME'' = Some ''Ubuntu 22.04.3 LTS''"
    and "DesktopEvironmentID h g = ''KDE''"
  shows "IdentifyOS h g = Inr (''Kubuntu'', Kubuntu, ''Kubuntu 22.04.3 LTS x86_64'')"
proof -
  have cap: "capitalize ''ubuntu'' = ''Ubuntu''"
    by code_simp
  from assms have "DetectBaseSystem h = ''Linux''"
    by (simp add: DetectBaseSystem_def CheckCommandInstalled_def GetCommandOutput_def)
  with assms cap have "IdentifyBase h = Inr (''Ubuntu'', ''Ubuntu 22.04.3 LTS x86_64'')"
    by (simp add: IdentifyBase_def IdentifyLinux_def CheckCommandInstalled_def
          GetCommandOutput_def)
  moreover from assms
  have "KubuntuCase h g (''Ubuntu'', ''Ubuntu 22.04.3 LTS x86_64'') =
          (''Kubuntu'', ''Kubuntu 22.04.3 LTS x86_64'')"
    by (simp add: KubuntuCase_def)
  moreover have "RaspbianCase h (''Kubuntu'', ''Kubuntu 22.04.3 LTS x86_64'') =
          (''Kubuntu'', ''Kubuntu 22.04.3 LTS x86_64'')"
    by (simp add: RaspbianCase_def)
  moreover have "DistroEnumDict ''Kubuntu'' = Some Kubuntu"
    by (simp add: DistroEnumDict_def)
  ultimately show ?thesis
    by (simp add: IdentifyOS_def)
qed

theorem Kubuntu_scenario_witness:
  "installed kde_host ''uname'' \<and>
   first_line kde_host (''uname'', [''-s'']) = ''Linux'' \<and>
   first_line kde_host (''uname'', [''-m'']) = ''x86_64'' \<and>
   os_release kde_host = Some [''ID'' \<mapsto> ''ubuntu'', ''PRETTY_NAME'' \<mapsto> ''Ubuntu 22.04.3 LTS''] \<and>
   DesktopEvironmentID kde_host initial_globals = ''KDE'' \<and>
   IdentifyOS kde_host initial_globals =
     Inr (''Kubuntu'', Kubuntu, ''Kubuntu 22.04.3 LTS x86_64'')"
proof -
  have 1: "installed kde_host ''uname''"
    and 2: "first_line kde_host (''uname'', [''-s'']) = ''Linux''"
    and 3: "first_line kde_host (''uname'', [''-m'']) = ''x86_64''"
    and 4: "os_release kde_host =
              Some [''ID'' \<mapsto> ''ubuntu'', ''PRETTY_NAME'' \<mapsto> ''Ubuntu 22.04.3 LTS'']"
    by (simp_all add: kde_host_def)
  have 5: "[''ID'' \<mapsto> ''ubuntu'', ''PRETTY_NAME'' \<mapsto> ''Ubuntu 22.04.3 LTS''] ''ID'' = Some ''ubuntu''"
    and 6: "[''ID'' \<mapsto> ''ubuntu'', ''PRETTY_NAME'' \<mapsto> ''Ubuntu 22.04.3 LTS''] ''PRETTY_NAME'' =
              Some ''Ubuntu 22.04.3 LTS''"
    by simp_all
  have 7: "DesktopEvironmentID kde_host initial_globals = ''KDE''"
    by (simp add: DesktopEvironmentID_def initial_globals_def kde_host_def
          DesktopEnvironmentShellVarDict_def)
  from Kubuntu_scenario [OF 1 2 3 4 5 6 7] 1 2 3 4 7 show ?thesis
    by simp
qed

text \<open>
  Claim C4 as it is stated fails: on a Raspberry Pi that reports Debian the pretty name
  does not become \<open>Rasp\<close> followed by the old pretty name without its first character
  (that would be \<open>Raspebian ...\<close>).
\<close>

theorem Raspbian_rewrite_counterexample:
  "IdentifyBase pi_host = Inr (''Debian'', ''Debian GNU/Linux 12 (bookworm) aarch64'') \<and>
   device_tree_model pi_host = Some ''Raspberry Pi 4 Model B Rev 1.4'' \<and>
   is_in ''Raspberry Pi'' ''Raspberry Pi 4 Model B Rev 1.4'' \<and>
   IdentifyOS pi_host initial_globals =
     Inr (''Raspbian'', Raspbian, ''Raspbian GNU/Linux 12 (bookworm) aarch64'') \<and>
   ''Raspbian GNU/Linux 12 (bookworm) aarch64'' \<noteq>
     ''Rasp'' @ drop 1 ''Debian GNU/Linux 12 (bookworm) aarch64''"
  by code_simp

text \<open>
  Claim C4, as the code has it. When the raw identity is Debian and the device-tree model
  file exists and contains \<open>Raspberry Pi\<close>, \<open>IdentifyOS\<close> returns the identity
  \<open>Raspbian\<close>, and the pretty name is \<open>Rasp\<close> followed by the old pretty name without
  its first two characters.
\<close>

theorem Raspbian_rewrite:
  assumes "IdentifyBase h = Inr (''Debian'', OSReleasePretty)"
    and "device_tree_model h = Some ModelInfo"
    and "is_in ''Raspberry Pi'' ModelInfo"
  shows "IdentifyOS h g = Inr (''Raspbian'', Raspbian, ''Rasp'' @ drop 2 OSReleasePretty)"
proof -
  have "KubuntuCase h g (''Debian'', OSReleasePretty) = (''Debian'', OSReleasePretty)"
    by (simp add: KubuntuCase_def)
  moreover from assms
  have "RaspbianCase h (''Debian'', OSReleasePretty) =
          (''Raspbian'', ''Rasp'' @ drop 2 OSReleasePretty)"
    by (simp add: RaspbianCase_def)
  moreover have "DistroEnumDict ''Raspbian'' = Some Raspbian"
    by (simp add: DistroEnumDict_def)
  ultimately show ?thesis
    using assms(1) by (simp add: IdentifyOS_def)
qed

theorem Raspbian_rewrite_witness:
  "IdentifyBase pi_host = Inr (''Debian'', ''Debian GNU/Linux 12 (bookworm) aarch64'') \<and>
   device_tree_model pi_host = Some ''Raspberry Pi 4 Model B Rev 1.4'' \<and>
   is_in ''Raspberry Pi'' ''Raspberry Pi 4 Model B Rev 1.4'' \<and>
   IdentifyOS pi_host initial_globals =
     Inr (''Raspbian'', Raspbian, ''Raspbian GNU/Linux 12 (bookworm) aarch64'')"
proof -
  have 1: "IdentifyBase pi_host = Inr (''Debian'', ''Debian GNU/Linux 12 (bookworm) aarch64'')"
    by code_simp
  have 2: "device_tree_model pi_host = Some ''Raspberry Pi 4 Model B Rev 1.4''"
    by (simp add: pi_host_def)
  have 3: "is_in ''Raspberry Pi'' ''Raspberry Pi 4 Model B Rev 1.4''"
    by simp
  from Raspbian_rewrite [OF 1 2 3, of initial_globals] 1 2 3 show ?thesis
    by simp
qed

section \<open>Properties of the collectors\<close>

lemma result_output:
  "result (output key val g) =
     result g @ [(case DistroColourDict (DistroID g) of Some c \<Rightarrow> c | None \<Rightarrow> redB) @
                 key @ '':'' @ clear @ '' '' @ val]"
  by (simp add: output_def Let_def)

lemma output_appends: "at_most_one_appended g (output key val g)"
  by (simp add: at_most_one_appended_def result_output)

lemma same_appends: "at_most_one_appended g g"
  by (simp add: at_most_one_appended_def)

lemma output_computed_appends:
  "output_computed key v g = Inr g' \<Longrightarrow> at_most_one_appended g g'"
  by (auto simp: output_computed_def output_appends split: sum.splits)

lemma IdentifyTerminal_result:
  "IdentifyTerminal h g = Inr (term, g') \<Longrightarrow> result g' = result g \<and> DistroID g' = DistroID g"
  by (auto simp: IdentifyTerminal_def split: if_splits sum.splits)

lemma appended_cong:
  "result g1 = result g \<Longrightarrow> at_most_one_appended g1 g' \<Longrightarrow> at_most_one_appended g g'"
  by (simp add: at_most_one_appended_def)

lemma wm_finish_appends: "at_most_one_appended g (wm_finish h w g)"
  by (simp add: wm_finish_def output_appends split: option.splits)

lemma ram_appends: "ram_display h g = Inr g' \<Longrightarrow> at_most_one_appended g g'"
  by (simp add: ram_display_def output_computed_appends)

lemma distro_appends: "distro_display h g = Inr g' \<Longrightarrow> at_most_one_appended g g'"
  by (auto simp: distro_display_def output_appends)

lemma kernel_appends: "kernel_display h g = Inr g' \<Longrightarrow> at_most_one_appended g g'"
  by (auto simp: kernel_display_def output_appends)

lemma user_appends: "user_display h g = Inr g' \<Longrightarrow> at_most_one_appended g g'"
  by (simp add: user_display_def output_computed_appends)

lemma hostname_appends: "hostname_display h g = Inr g' \<Longrightarrow> at_most_one_appended g g'"
  by (simp add: hostname_display_def output_computed_appends)

lemma cpu_appends: "cpu_display h g = Inr g' \<Longrightarrow> at_most_one_appended g g'"
  by (simp add: cpu_display_def output_computed_appends)

lemma uptime_appends: "uptime_display h g = Inr g' \<Longrightarrow> at_most_one_appended g g'"
  by (simp add: uptime_display_def output_computed_appends)

lemma de_appends:
  assumes "de_display h g = Inr g'"
  shows "at_most_one_appended g g'"
proof -
  define v where
    "v = (if DesktopEvironmentID h g = ''KDE'' then probe h ''KDEVersionInfo''
          else if DesktopEvironmentID h g = ''GNOME'' then probe h ''GNOMEVersionInfo''
          else Inr (DesktopEvironmentID h g))"
  from assms
  have eq: "(case v of Inl e \<Rightarrow> Inl e
         | Inr d \<Rightarrow> if d \<noteq> ''None'' then Inr (output ''Desktop Environment'' d g) else Inr g) =
        Inr g'"
    by (simp only: de_display_def Let_def v_def)
  show ?thesis
  proof (cases v)
    case (Inl e)
    with eq show ?thesis by simp
  next
    case (Inr d)
    with eq show ?thesis
      by (cases "d = ''None''") (auto simp: output_appends same_appends)
  qed
qed

lemma wm_appends:
  assumes "wm_display h g = Inr g'"
  shows "at_most_one_appended g g'"
proof (cases "TTYID h \<in> set [''/dev/tty1'', ''/dev/ttyv0'']")
  case True
  with assms show ?thesis
    by (auto simp: wm_display_def wm_finish_appends)
next
  case False
  with assms obtain tname g1 where t: "IdentifyTerminal h g = Inr (tname, g1)"
    by (auto simp: wm_display_def split: sum.splits)
  from False assms t have "at_most_one_appended g1 g'"
    by (auto simp: wm_display_def wm_finish_appends split: if_splits sum.splits)
  with IdentifyTerminal_result [OF t] show ?thesis
    by (auto intro: appended_cong)
qed

lemma sh_appends: "sh_display h g = Inr g' \<Longrightarrow> at_most_one_appended g g'"
  by (simp add: sh_display_def output_computed_appends)

lemma term_appends:
  assumes "term_display h g = Inr g'"
  shows "at_most_one_appended g g'"
proof -
  from assms obtain tname g1 where t: "IdentifyTerminal h g = Inr (tname, g1)"
    by (auto simp: term_display_def split: sum.splits)
  with assms have "at_most_one_appended g1 g'"
    by (auto simp: term_display_def output_appends)
  with IdentifyTerminal_result [OF t] show ?thesis
    by (auto intro: appended_cong)
qed

lemma packages_appends: "packages_display h g = Inr g' \<Longrightarrow> at_most_one_appended g g'"
  by (auto simp: packages_display_def same_appends split: if_splits
        dest: output_computed_appends)

lemma disk_appends:
  assumes "disk_display h g = Inr g'"
  shows "at_most_one_appended g g'"
proof -
  define v where
    "v = (if DistroID g = MacOS then probe h ''disk df -k''
          else if DistroID g = FreeBSD then Inr ''Unsupported''
          else probe h ''disk df -Tlh'')"
  from assms
  have eq: "(case v of Inl e \<Rightarrow> Inl e
         | Inr d \<Rightarrow> if d \<noteq> ''Unsupported'' then Inr (output ''Disk'' d g) else Inr g) =
        Inr g'"
    by (simp only: disk_display_def v_def)
  show ?thesis
  proof (cases v)
    case (Inl e)
    with eq show ?thesis by simp
  next
    case (Inr d)
    with eq show ?thesis
      by (cases "d = ''Unsupported''") (auto simp: output_appends same_appends)
  qed
qed

lemma resolution_appends:
  assumes "resolution_display h g = Inr g'"
  shows "at_most_one_appended g g'"
proof (cases "TTYID h \<in> set [''/dev/tty1'', ''/dev/ttyv0'']")
  case True
  with assms show ?thesis
    by (auto simp: resolution_display_def dest: output_computed_appends)
next
  case False
  with assms obtain tname g1 where t: "IdentifyTerminal h g = Inr (tname, g1)"
    by (auto simp: resolution_display_def split: sum.splits)
  from False assms t have "at_most_one_appended g1 g'"
    by (auto simp: resolution_display_def split: if_splits dest: output_computed_appends)
  with IdentifyTerminal_result [OF t] show ?thesis
    by (auto intro: appended_cong)
qed

lemma gpu_appends: "gpu_display h g = Inr g' \<Longrightarrow> at_most_one_appended g g'"
  by (simp add: gpu_display_def output_computed_appends)

lemma pimodel_appends: "pimodel_display h g = Inr g' \<Longrightarrow> at_most_one_appended g g'"
  by (auto simp: pimodel_display_def output_appends same_appends split: option.splits if_splits)

lemmas collector_appends =
  ram_appends distro_appends kernel_appends user_appends hostname_appends cpu_appends
  uptime_appends de_appends wm_appends sh_appends term_appends packages_appends disk_appends
  resolution_appends gpu_appends pimodel_appends

lemma locals_display_cases:
  "locals_display n = Some func \<Longrightarrow>
   func \<in> {ram_display, distro_display, kernel_display, user_display, hostname_display,
            cpu_display, uptime_display, de_display, wm_display, sh_display, term_display,
            packages_display, disk_display, resolution_display, gpu_display, pimodel_display}"
  by (simp add: locals_display_def split: if_splits)

lemma run_attribute_appends:
  assumes "run_attribute h f g = Inr g'"
  shows "at_most_one_appended g g'"
proof -
  from assms obtain func where l: "locals_display (f @ ''_display'') = Some func"
    and r: "func h g = Inr g'"
    by (auto simp: run_attribute_def Let_def split: option.splits)
  from locals_display_cases [OF l] r show ?thesis
    by (auto dest: collector_appends)
qed

lemma at_most_one_appended_prefix:
  "at_most_one_appended g g' \<Longrightarrow>
   prefix (result g) (result g') \<and> length (result g') \<le> length (result g) + 1"
  by (auto simp: at_most_one_appended_def prefix_def) (metis length_append_singleton le_refl)

lemma run_display_appends:
  "run_display h attrs g = Inr g' \<Longrightarrow>
   prefix (result g) (result g') \<and> length (result g') \<le> length (result g) + length attrs"
proof (induction attrs arbitrary: g)
  case Nil
  then show ?case by simp
next
  case (Cons f attrs)
  from Cons.prems obtain g1 where one: "run_attribute h f g = Inr g1"
    and rest: "run_display h attrs g1 = Inr g'"
    by (auto split: sum.splits)
  from at_most_one_appended_prefix [OF run_attribute_appends [OF one]] Cons.IH [OF rest]
  show ?case
    by (auto intro: prefix_order.trans)
qed

text \<open>Every configured field has its collector, so the lookup in the loop succeeds.\<close>

lemma display_fields_have_collectors:
  "list_all (\<lambda>f. locals_display (f @ ''_display'') \<noteq> None) display"
  by code_simp

text \<open>
  Claim C9. One round of the loop over the fields appends no line or one line to
  \<open>result\<close> and leaves the earlier lines as they are; after the loop over a list of
  fields the old \<open>result\<close> is a prefix of the new one, which has at most one line more per
  field.
\<close>

theorem collectors_append_only:
  "(run_attribute h f g = Inr g1 \<longrightarrow>
      (result g1 = result g \<or> result g1 = result g @ [last (result g1)])) \<and>
   (run_display h attrs g = Inr g2 \<longrightarrow>
      prefix (result g) (result g2) \<and>
      length (result g2) \<le> length (result g) + length attrs)"
  using run_attribute_appends [of h f g g1] run_display_appends [of h attrs g g2]
  by (simp add: at_most_one_appended_def)

theorem collectors_append_only_witness:
  "run_attribute pi_host ''pimodel'' (initial_globals\<lparr>DistroID := Raspbian\<rparr>) =
     Inr (output ''Pi Model'' ''Raspberry Pi 4 Model B Rev 1.4''
            (initial_globals\<lparr>DistroID := Raspbian\<rparr>)) \<and>
   result (output ''Pi Model'' ''Raspberry Pi 4 Model B Rev 1.4''
             (initial_globals\<lparr>DistroID := Raspbian\<rparr>)) =
     [redB @ ''Pi Model:'' @ clear @ '' Raspberry Pi 4 Model B Rev 1.4''] \<and>
   run_display pi_host [''pimodel'', ''de'', ''kernel'']
       (initial_globals\<lparr>DistroID := Raspbian\<rparr>) =
     Inr (output ''Kernel'' ''''
            (output ''Pi Model'' ''Raspberry Pi 4 Model B Rev 1.4''
               (initial_globals\<lparr>DistroID := Raspbian\<rparr>))) \<and>
   length (result (output ''Kernel'' ''''
            (output ''Pi Model'' ''Raspberry Pi 4 Model B Rev 1.4''
               (initial_globals\<lparr>DistroID := Raspbian\<rparr>)))) \<le> 0 + 3"
proof -
  let ?g = "initial_globals\<lparr>DistroID := Raspbian\<rparr>"
  let ?g1 = "output ''Pi Model'' ''Raspberry Pi 4 Model B Rev 1.4'' ?g"
  let ?g2 = "output ''Kernel'' '''' ?g1"
  have pi: "run_attribute pi_host ''pimodel'' ?g = Inr ?g1"
    by (simp add: run_attribute_def locals_display_def pimodel_display_def pi_host_def)
  have r0: "result ?g = []"
    by (simp add: initial_globals_def)
  have r1: "result ?g1 = [redB @ ''Pi Model:'' @ clear @ '' Raspberry Pi 4 Model B Rev 1.4'']"
    by (simp add: output_def initial_globals_def DistroColourDict_def)
  have de: "run_attribute pi_host ''de'' ?g1 = Inr ?g1"
    by (simp add: run_attribute_def locals_display_def de_display_def DesktopEvironmentID_def
          output_def initial_globals_def pi_host_def)
  have ke: "run_attribute pi_host ''kernel'' ?g1 = Inr ?g2"
    by (simp add: run_attribute_def locals_display_def kernel_display_def
          GetCommandOutput_def CheckCommandInstalled_def pi_host_def)
  from pi de ke
  have all: "run_display pi_host [''pimodel'', ''de'', ''kernel''] ?g = Inr ?g2"
    by simp
  from collectors_append_only
         [of pi_host "''pimodel''" ?g ?g1 "[''pimodel'', ''de'', ''kernel'']" ?g2] pi all r0
  have "length (result ?g2) \<le> 0 + 3"
    by simp
  with pi r1 all show ?thesis
    by simp
qed

text \<open>
  Claim C10. The test in \<open>kernel_display\<close> compares the enumeration class with
  \<open>Distro.FreeBSD\<close>, which are never equal, so for every value of \<open>DistroID\<close>, FreeBSD
  among them, \<open>kernel_display\<close> appends exactly one line with the label Kernel.
\<close>

theorem kernel_line_unconditional:
  "kernel_display h g =
     Inr (g\<lparr>result := result g @
              [(case DistroColourDict (DistroID g) of Some c \<Rightarrow> c | None \<Rightarrow> redB) @
               ''Kernel:'' @ clear @ '' '' @ GetCommandOutput h (''uname'', [''-sr''])]\<rparr>) \<and>
   kernel_display h (g\<lparr>DistroID := FreeBSD\<rparr>) =
     Inr (g\<lparr>DistroID := FreeBSD,
            result := result g @
              [redB @ ''Kernel:'' @ clear @ '' '' @ GetCommandOutput h (''uname'', [''-sr''])]\<rparr>)"
  by (simp add: kernel_display_def output_def Let_def DistroColourDict_def)

end
